theory Spec2Isabelle
  imports Complex_Main
begin

section \<open>Data model\<close>

text \<open>
  The particle filter of \<^verbatim>\<open>src/particle_filter.cpp\<close>. A C++ \<^verbatim>\<open>double\<close> (and the
  \<^verbatim>\<open>float\<close> of a map landmark) is a \<^typ>\<open>real\<close>: rounding, infinities and NaN are outside
  the model. A C++ \<^verbatim>\<open>int\<close> holding an identifier is an \<^typ>\<open>int\<close>; a loop counter over a
  vector is a \<^typ>\<open>nat\<close>.

  Two things the C++ does silently are made visible as a \<open>fault\<close>:
  \<^item> \<open>OutOfRangeAccess\<close>: \<^verbatim>\<open>v[i]\<close> on a \<^verbatim>\<open>std::vector\<close> with \<open>i\<close> not below its size.
    The vector does not check the index: the program has undefined behaviour there and
    raises nothing.
  \<^item> \<open>DivisionByZero\<close>: a quotient of doubles whose divisor is zero. The program goes on
    with an infinity or a NaN, which is not a real number.
  A result \<open>Inl f\<close> therefore never stands for an error that the program reports: the
  source has no \<^verbatim>\<open>throw\<close>, no error code and no assertion.
\<close>

datatype fault = OutOfRangeAccess | DivisionByZero

text \<open>
  The structs are declared in \<^verbatim>\<open>particle_filter.h\<close>, \<^verbatim>\<open>helper_functions.h\<close> and \<^verbatim>\<open>map.h\<close>;
  the fields are the ones the source reads and writes. The fields \<^verbatim>\<open>id\<close>, \<^verbatim>\<open>x\<close>, \<^verbatim>\<open>y\<close>,
  \<^verbatim>\<open>theta\<close>, \<^verbatim>\<open>weight\<close> of \<^verbatim>\<open>Particle\<close> carry the suffix \<open>_p\<close>, the fields \<^verbatim>\<open>id\<close>, \<^verbatim>\<open>x\<close>,
  \<^verbatim>\<open>y\<close> of \<^verbatim>\<open>LandmarkObs\<close> the suffix \<open>_o\<close>.
\<close>

record Particle =
  id_p :: int
  x_p :: real
  y_p :: real
  theta_p :: real
  weight_p :: real

record LandmarkObs =
  id_o :: int
  x_o :: real
  y_o :: real

record single_landmark_s =
  id_i :: int
  x_f :: real
  y_f :: real

record Map_landmarks =
  landmark_list :: "single_landmark_s list"

text \<open>
  The members of \<^verbatim>\<open>ParticleFilter\<close>. \<^verbatim>\<open>num_particles\<close> is a C++ \<^verbatim>\<open>int\<close> that the source
  only ever assigns 75 and uses as a loop bound and a vector size: a \<^typ>\<open>nat\<close>.
\<close>

record ParticleFilter =
  num_particles :: nat
  is_initialized :: bool
  particles :: "Particle list"
  weights :: "real list"

section \<open>Sequencing and loops\<close>

definition bind_fault :: "fault + 'a \<Rightarrow> ('a \<Rightarrow> fault + 'b) \<Rightarrow> fault + 'b" where
  "bind_fault m f = (case m of Inl e \<Rightarrow> Inl e | Inr v \<Rightarrow> f v)"

text \<open>\<^verbatim>\<open>for (int i = 0; i < n; i++) body\<close>, the body run at each index of the list in turn.\<close>

fun for_each :: "nat list \<Rightarrow> (nat \<Rightarrow> 's \<Rightarrow> fault + 's) \<Rightarrow> 's \<Rightarrow> fault + 's" where
  "for_each [] body s = Inr s"
| "for_each (i # js) body s = bind_fault (body i s) (for_each js body)"

text \<open>A loop that rewrites every element of a vector on its own, in order.\<close>

fun map_fault :: "('a \<Rightarrow> fault + 'b) \<Rightarrow> 'a list \<Rightarrow> fault + 'b list" where
  "map_fault f [] = Inr []"
| "map_fault f (v # vs) =
     bind_fault (f v) (\<lambda>w. bind_fault (map_fault f vs) (\<lambda>ws. Inr (w # ws)))"

text \<open>The quotient of two doubles.\<close>

definition fdiv :: "real \<Rightarrow> real \<Rightarrow> fault + real" where
  "fdiv a b = (if b = 0 then Inl DivisionByZero else Inr (a / b))"

section \<open>Data association\<close>

text \<open>
  Modelled from the spec: \<^verbatim>\<open>dist\<close> is declared in \<^verbatim>\<open>helper_functions.h\<close>, which is
  not among the sources; the spec calls it the Euclidean distance of two points. It is
  \<open>dist_xy\<close> here, \<open>dist\<close> being the metric of HOL.
\<close>

definition dist_xy :: "real \<Rightarrow> real \<Rightarrow> real \<Rightarrow> real \<Rightarrow> real" where
  "dist_xy x1 y1 x2 y2 = sqrt ((x2 - x1) * (x2 - x1) + (y2 - y1) * (y2 - y1))"

text \<open>The distance of an observation and a candidate landmark (line 229).\<close>

abbreviation obs_dist :: "LandmarkObs \<Rightarrow> LandmarkObs \<Rightarrow> real" where
  "obs_dist ob p \<equiv> dist_xy (x_o ob) (y_o ob) (x_o p) (y_o p)"

text \<open>
  The inner loop of \<^verbatim>\<open>dataAssociation\<close> (lines 227 to 234), from candidate \<open>j\<close> on:
  the candidates left, the index \<open>j\<close>, \<^verbatim>\<open>distance_so_far\<close> and \<^verbatim>\<open>closest\<close>.
\<close>

fun closest_loop :: "LandmarkObs \<Rightarrow> LandmarkObs list \<Rightarrow> nat \<Rightarrow> real \<Rightarrow> nat \<Rightarrow> nat" where
  "closest_loop ob [] j distance_so_far closest = closest"
| "closest_loop ob (p # ps) j distance_so_far closest =
     (let curr_dist = obs_dist ob p
      in if curr_dist < distance_so_far
         then closest_loop ob ps (Suc j) curr_dist j
         else closest_loop ob ps (Suc j) distance_so_far closest)"

text \<open>The body of the outer loop (lines 226 to 237) for one observation.\<close>

definition associate :: "LandmarkObs list \<Rightarrow> LandmarkObs \<Rightarrow> fault + LandmarkObs" where
  "associate predicted ob =
     (let closest = closest_loop ob predicted 0 100000 0
      in if closest < length predicted
         then Inr (ob\<lparr>id_o := int closest,
                      x_o := x_o (predicted ! closest),
                      y_o := y_o (predicted ! closest)\<rparr>)
         else Inl OutOfRangeAccess)"

definition dataAssociation :: "LandmarkObs list \<Rightarrow> LandmarkObs list \<Rightarrow> fault + LandmarkObs list" where
  "dataAssociation predicted observations = map_fault (associate predicted) observations"

section \<open>Random draws\<close>

text \<open>
  The random engines and distributions are those of the C++ standard library. A draw is a
  parameter of the model: \<open>gen k\<close> is the standard normal variate behind the \<open>k\<close>-th draw
  of a call, and a \<^verbatim>\<open>normal_distribution<double>(mean, stddev)\<close> turns it into
  \<open>gen k * stddev + mean\<close>, so that a standard deviation of zero gives the mean.
\<close>

definition normal_distribution :: "real \<Rightarrow> real \<Rightarrow> real \<Rightarrow> real" where
  "normal_distribution mean stddev z = z * stddev + mean"

text \<open>\<^verbatim>\<open>v.resize(n)\<close>: the first \<open>n\<close> elements, filled up with value-initialised ones.\<close>

definition resize :: "nat \<Rightarrow> 'a \<Rightarrow> 'a list \<Rightarrow> 'a list" where
  "resize n d vs = take n vs @ replicate (n - length vs) d"

definition default_Particle :: Particle where
  "default_Particle = \<lparr>id_p = 0, x_p = 0, y_p = 0, theta_p = 0, weight_p = 0\<rparr>"

section \<open>Initialisation\<close>

text \<open>The body of the loop of \<^verbatim>\<open>init\<close> (lines 52 to 57).\<close>

definition init_body ::
  "real \<Rightarrow> real \<Rightarrow> real \<Rightarrow> real \<times> real \<times> real \<Rightarrow> (nat \<Rightarrow> real) \<Rightarrow> nat \<Rightarrow> ParticleFilter
     \<Rightarrow> fault + ParticleFilter" where
  "init_body x y theta std gen i s =
     (let std_x = fst std; std_y = fst (snd std); std_theta = snd (snd std)
      in if i < length (particles s) \<and> i < length (weights s)
         then Inr (s\<lparr>particles := (particles s)[i := (particles s ! i)
                         \<lparr>id_p := int i,
                          x_p := normal_distribution x std_x (gen (3 * i)),
                          y_p := normal_distribution y std_y (gen (3 * i + 1)),
                          theta_p := normal_distribution theta std_theta (gen (3 * i + 2)),
                          weight_p := 1\<rparr>],
                     weights := (weights s)[i := 1]\<rparr>)
         else Inl OutOfRangeAccess)"

definition init ::
  "real \<Rightarrow> real \<Rightarrow> real \<Rightarrow> real \<times> real \<times> real \<Rightarrow> (nat \<Rightarrow> real) \<Rightarrow> ParticleFilter
     \<Rightarrow> fault + ParticleFilter" where
  "init x y theta std gen s =
     (let s1 = s\<lparr>num_particles := 75,
                 particles := resize 75 default_Particle (particles s),
                 weights := resize 75 0 (weights s)\<rparr>
      in bind_fault (for_each [0..<num_particles s1] (init_body x y theta std gen) s1)
           (\<lambda>s2. Inr (s2\<lparr>is_initialized := True\<rparr>)))"

section \<open>Prediction\<close>

text \<open>
  The pose of a particle before the noise is added (lines 93 to 103): the new
  \<^verbatim>\<open>particle_x\<close>, \<^verbatim>\<open>particle_y\<close> and \<^verbatim>\<open>particle_theta\<close>.
\<close>

definition motion :: "real \<Rightarrow> real \<Rightarrow> real \<Rightarrow> Particle \<Rightarrow> fault + real \<times> real \<times> real" where
  "motion delta_t velocity yaw_rate p =
     (let theta_0 = theta_p p
      in if \<bar>yaw_rate\<bar> > 0
         then bind_fault (fdiv velocity yaw_rate) (\<lambda>qx.
              bind_fault (fdiv velocity yaw_rate) (\<lambda>qy.
                Inr (x_p p + qx * (sin (theta_0 + yaw_rate * delta_t) - sin theta_0),
                     y_p p + qy * (cos theta_0 - cos (theta_0 + yaw_rate * delta_t)),
                     theta_p p + yaw_rate * delta_t)))
         else Inr (x_p p + velocity * delta_t * cos theta_0,
                   y_p p + velocity * delta_t * sin theta_0,
                   theta_p p))"

text \<open>The body of the loop of \<^verbatim>\<open>prediction\<close> (lines 93 to 112).\<close>

definition prediction_body ::
  "real \<Rightarrow> real \<times> real \<times> real \<Rightarrow> real \<Rightarrow> real \<Rightarrow> (nat \<Rightarrow> real) \<Rightarrow> nat \<Rightarrow> ParticleFilter
     \<Rightarrow> fault + ParticleFilter" where
  "prediction_body delta_t std_pos velocity yaw_rate gen i s =
     (let std_x = fst std_pos; std_y = fst (snd std_pos); std_yaw = snd (snd std_pos)
      in if i < length (particles s) \<and> i < length (weights s)
         then bind_fault (motion delta_t velocity yaw_rate (particles s ! i))
           (\<lambda>(particle_x, particle_y, particle_theta).
              let noise_x = normal_distribution 0 std_x (gen (3 * i));
                  noise_y = normal_distribution 0 std_y (gen (3 * i + 1));
                  noise_theta = normal_distribution 0 std_yaw (gen (3 * i + 2))
              in Inr (s\<lparr>particles := (particles s)[i := (particles s ! i)
                            \<lparr>x_p := particle_x + noise_x,
                             y_p := particle_y + noise_y,
                             theta_p := particle_theta + noise_theta,
                             weight_p := 1\<rparr>],
                        weights := (weights s)[i := 1]\<rparr>))
         else Inl OutOfRangeAccess)"

definition prediction ::
  "real \<Rightarrow> real \<times> real \<times> real \<Rightarrow> real \<Rightarrow> real \<Rightarrow> (nat \<Rightarrow> real) \<Rightarrow> ParticleFilter
     \<Rightarrow> fault + ParticleFilter" where
  "prediction delta_t std_pos velocity yaw_rate gen s =
     for_each [0..<num_particles s] (prediction_body delta_t std_pos velocity yaw_rate gen) s"

section \<open>Weight update\<close>

text \<open>
  \<^verbatim>\<open>GetLandmarksWithinSensorRange\<close> appends to \<^verbatim>\<open>remaining_landmarks\<close>, in map order, the
  landmarks within the range of the particle.
\<close>

fun GetLandmarksWithinSensorRange ::
  "Particle \<Rightarrow> single_landmark_s list \<Rightarrow> real \<Rightarrow> LandmarkObs list \<Rightarrow> LandmarkObs list" where
  "GetLandmarksWithinSensorRange curr_p [] sensor_range remaining_landmarks = remaining_landmarks"
| "GetLandmarksWithinSensorRange curr_p (l # ls) sensor_range remaining_landmarks =
     (let curr_dist = dist_xy (x_p curr_p) (y_p curr_p) (x_f l) (y_f l)
      in if curr_dist \<le> sensor_range
         then GetLandmarksWithinSensorRange curr_p ls sensor_range
                (remaining_landmarks @ [\<lparr>id_o = id_i l, x_o = x_f l, y_o = y_f l\<rparr>])
         else GetLandmarksWithinSensorRange curr_p ls sensor_range remaining_landmarks)"

text \<open>
  \<^verbatim>\<open>ConvertToParticleCoordinates\<close> resizes its output vector to the number of observations
  and writes every element of it: the result is returned.
\<close>

definition ConvertToParticleCoordinates :: "Particle \<Rightarrow> LandmarkObs list \<Rightarrow> LandmarkObs list" where
  "ConvertToParticleCoordinates current_particle observations =
     (let xt = x_p current_particle; yt = y_p current_particle; theta = theta_p current_particle
      in map (\<lambda>ob. let x = x_o ob; y = y_o ob
                   in \<lparr>id_o = id_o ob,
                       x_o = xt + x * cos theta - y * sin theta,
                       y_o = yt + x * sin theta + y * cos theta\<rparr>) observations)"

text \<open>
  The loop of \<^verbatim>\<open>UpdateParticleWeight\<close> (lines 197 to 210) over the observations and, at
  the same index, the matched landmarks; \<open>l1\<close> was computed before the loop and is first
  used in it.
\<close>

fun weight_loop ::
  "fault + real \<Rightarrow> real \<Rightarrow> real \<Rightarrow> LandmarkObs list \<Rightarrow> LandmarkObs list \<Rightarrow> real \<Rightarrow> fault + real" where
  "weight_loop l1 sigmax sigmay [] mus updated_weight = Inr updated_weight"
| "weight_loop l1 sigmax sigmay (ob # obs) [] updated_weight = Inl OutOfRangeAccess"
| "weight_loop l1 sigmax sigmay (ob # obs) (mu # mus) updated_weight =
     (let x = x_o ob; y = y_o ob; mux = x_o mu; muy = y_o mu
      in bind_fault (fdiv ((x - mux) * (x - mux)) (2 * sigmax * sigmax)) (\<lambda>l2.
         bind_fault (fdiv ((y - muy) * (y - muy)) (2 * sigmay * sigmay)) (\<lambda>l3.
         let l4 = exp (- (l2 + l3))
         in bind_fault l1 (\<lambda>l1.
            let temp_weight = l1 * l4
            in weight_loop (Inr l1) sigmax sigmay obs mus (updated_weight * temp_weight)))))"

definition UpdateParticleWeight ::
  "Particle \<Rightarrow> nat \<Rightarrow> real \<times> real \<Rightarrow> LandmarkObs list \<Rightarrow> LandmarkObs list \<Rightarrow> fault + Particle" where
  "UpdateParticleWeight curr_p particle_index std_landmark observations transformed_observations =
     (let sigmax = fst std_landmark; sigmay = snd std_landmark;
          l1 = fdiv 1 (2 * pi * sigmax * sigmay)
      in bind_fault (weight_loop l1 sigmax sigmay observations transformed_observations 1)
           (\<lambda>updated_weight. Inr (curr_p\<lparr>weight_p := updated_weight\<rparr>)))"

text \<open>The body of the loop of \<^verbatim>\<open>updateWeights\<close> (lines 255 to 276).\<close>

definition updateWeights_body ::
  "real \<Rightarrow> real \<times> real \<Rightarrow> LandmarkObs list \<Rightarrow> Map_landmarks \<Rightarrow> nat \<Rightarrow> ParticleFilter
     \<Rightarrow> fault + ParticleFilter" where
  "updateWeights_body sensor_range std_landmark observations map_landmarks i s =
     (if i < length (particles s)
      then
        let curr_p = particles s ! i;
            remaining_landmarks =
              GetLandmarksWithinSensorRange curr_p (landmark_list map_landmarks) sensor_range [];
            converted_observations = ConvertToParticleCoordinates curr_p observations
        in bind_fault (dataAssociation remaining_landmarks converted_observations)
             (\<lambda>chosen_matched_observations.
          bind_fault (UpdateParticleWeight curr_p i std_landmark converted_observations
                        chosen_matched_observations)
             (\<lambda>curr_p.
          if i < length (weights s)
          then Inr (s\<lparr>particles := (particles s)[i := curr_p],
                      weights := (weights s)[i := weight_p curr_p]\<rparr>)
          else Inl OutOfRangeAccess))
      else Inl OutOfRangeAccess)"

definition updateWeights ::
  "real \<Rightarrow> real \<times> real \<Rightarrow> LandmarkObs list \<Rightarrow> Map_landmarks \<Rightarrow> ParticleFilter
     \<Rightarrow> fault + ParticleFilter" where
  "updateWeights sensor_range std_landmark observations map_landmarks s =
     for_each [0..<num_particles s]
       (updateWeights_body sensor_range std_landmark observations map_landmarks) s"

section \<open>Resampling\<close>

text \<open>
  \<open>dist_N i\<close> is the index that the \<open>i\<close>-th call \<^verbatim>\<open>dist_N(gen)\<close> of the
  \<^verbatim>\<open>discrete_distribution\<close> over \<^verbatim>\<open>weights\<close> returns. The body of the loop (lines 299 to
  301) works on the pair of \<^verbatim>\<open>particles_temp\<close> and \<^verbatim>\<open>weights_temp\<close>.
\<close>

definition resample_body ::
  "(nat \<Rightarrow> nat) \<Rightarrow> ParticleFilter \<Rightarrow> nat \<Rightarrow> Particle list \<times> real list
     \<Rightarrow> fault + Particle list \<times> real list" where
  "resample_body dist_N s i tmp =
     (let particles_temp = fst tmp; weights_temp = snd tmp; index = dist_N i
      in if index < length (particles s) \<and> i < length weights_temp \<and> i < length particles_temp
         then Inr (particles_temp[i := particles s ! index],
                   weights_temp[i := weight_p (particles s ! index)])
         else Inl OutOfRangeAccess)"

definition resample :: "(nat \<Rightarrow> nat) \<Rightarrow> ParticleFilter \<Rightarrow> fault + ParticleFilter" where
  "resample dist_N s =
     (let particles_temp = resize (num_particles s) default_Particle [];
          weights_temp = resize (num_particles s) 0 []
      in bind_fault (for_each [0..<num_particles s] (resample_body dist_N s)
                       (particles_temp, weights_temp))
           (\<lambda>tmp. Inr (s\<lparr>weights := snd tmp, particles := fst tmp\<rparr>)))"

section \<open>The loops, particle by particle\<close>

text \<open>
  What the body of the loop of \<^verbatim>\<open>prediction\<close> makes of particle \<open>i\<close> (lines 93 to 111).
\<close>

definition predicted_particle ::
  "real \<Rightarrow> real \<times> real \<times> real \<Rightarrow> real \<Rightarrow> real \<Rightarrow> (nat \<Rightarrow> real) \<Rightarrow> nat \<Rightarrow> Particle
     \<Rightarrow> fault + Particle" where
  "predicted_particle delta_t std_pos velocity yaw_rate gen i p =
     bind_fault (motion delta_t velocity yaw_rate p)
       (\<lambda>(particle_x, particle_y, particle_theta).
          Inr (p\<lparr>x_p := particle_x + normal_distribution 0 (fst std_pos) (gen (3 * i)),
                 y_p := particle_y + normal_distribution 0 (fst (snd std_pos)) (gen (3 * i + 1)),
                 theta_p := particle_theta
                   + normal_distribution 0 (snd (snd std_pos)) (gen (3 * i + 2)),
                 weight_p := 1\<rparr>))"

text \<open>What the body of the loop of \<^verbatim>\<open>init\<close> makes of particle \<open>i\<close> (lines 52 to 56).\<close>

definition initial_particle ::
  "real \<Rightarrow> real \<Rightarrow> real \<Rightarrow> real \<times> real \<times> real \<Rightarrow> (nat \<Rightarrow> real) \<Rightarrow> nat \<Rightarrow> Particle
     \<Rightarrow> fault + Particle" where
  "initial_particle x y theta std gen i p =
     Inr (p\<lparr>id_p := int i,
            x_p := normal_distribution x (fst std) (gen (3 * i)),
            y_p := normal_distribution y (fst (snd std)) (gen (3 * i + 1)),
            theta_p := normal_distribution theta (snd (snd std)) (gen (3 * i + 2)),
            weight_p := 1\<rparr>)"

text \<open>
  What the body of the loop of \<^verbatim>\<open>updateWeights\<close> makes of particle \<open>i\<close> (lines 255 to
  275).
\<close>

definition weighted_particle ::
  "real \<Rightarrow> real \<times> real \<Rightarrow> LandmarkObs list \<Rightarrow> Map_landmarks \<Rightarrow> nat \<Rightarrow> Particle
     \<Rightarrow> fault + Particle" where
  "weighted_particle sensor_range std_landmark observations map_landmarks i curr_p =
     (let remaining_landmarks =
            GetLandmarksWithinSensorRange curr_p (landmark_list map_landmarks) sensor_range [];
          converted_observations = ConvertToParticleCoordinates curr_p observations
      in bind_fault (dataAssociation remaining_landmarks converted_observations)
           (\<lambda>chosen_matched_observations.
              UpdateParticleWeight curr_p i std_landmark converted_observations
                chosen_matched_observations))"

section \<open>The invariant of the particle set\<close>

text \<open>
  The two vectors hold \<^verbatim>\<open>num_particles\<close> elements each, and \<^verbatim>\<open>weights[i]\<close> is
  \<^verbatim>\<open>particles[i].weight\<close> at every index.
\<close>

definition parallel_arrays :: "ParticleFilter \<Rightarrow> bool" where
  "parallel_arrays s \<longleftrightarrow>
     length (particles s) = num_particles s \<and> length (weights s) = num_particles s
     \<and> (\<forall>i < num_particles s. weights s ! i = weight_p (particles s ! i))"

section \<open>Example filters\<close>

text \<open>A filter of one particle at the origin, heading along the x axis.\<close>

definition one_particle :: ParticleFilter where
  "one_particle = \<lparr>num_particles = 1, is_initialized = True,
     particles = [\<lparr>id_p = 0, x_p = 0, y_p = 0, theta_p = 0, weight_p = 1\<rparr>], weights = [1]\<rparr>"

text \<open>Two particles with the identifiers 0 and 1 and the given weights.\<close>

definition two_particles :: "real \<Rightarrow> real \<Rightarrow> ParticleFilter" where
  "two_particles w0 w1 = \<lparr>num_particles = 2, is_initialized = True,
     particles = [\<lparr>id_p = 0, x_p = 0, y_p = 0, theta_p = 0, weight_p = w0\<rparr>,
                  \<lparr>id_p = 1, x_p = 1, y_p = 0, theta_p = 0, weight_p = w1\<rparr>],
     weights = [w0, w1]\<rparr>"

text \<open>A map of one landmark at (2, 0) and one observation of it, 2 ahead of the vehicle.\<close>

definition one_landmark :: Map_landmarks where
  "one_landmark = \<lparr>landmark_list = [\<lparr>id_i = 1, x_f = 2, y_f = 0\<rparr>]\<rparr>"

definition one_observation :: "LandmarkObs list" where
  "one_observation = [\<lparr>id_o = 0, x_o = 2, y_o = 0\<rparr>]"

section \<open>Facts about sequencing and loops\<close>

lemma bind_fault_Inr [simp]: "bind_fault (Inr v) f = f v"
  by (simp add: bind_fault_def)

lemma bind_fault_Inl [simp]: "bind_fault (Inl e) f = Inl e"
  by (simp add: bind_fault_def)

lemma bind_fault_eq_Inr: "bind_fault m f = Inr r \<longleftrightarrow> (\<exists>v. m = Inr v \<and> f v = Inr r)"
  by (cases m) simp_all

lemma for_each_append:
  "for_each (xs @ ys) body s = bind_fault (for_each xs body s) (for_each ys body)"
proof (induction xs arbitrary: s)
  case Nil
  show ?case by simp
next
  case (Cons i xs)
  show ?case by (cases "body i s") (simp_all add: Cons.IH)
qed

lemma for_each_upt_Suc:
  "for_each [0..<Suc n] body s = bind_fault (for_each [0..<n] body s) (body n)"
proof -
  have "for_each [n] body t = body n t" for t
    by (cases "body n t") simp_all
  then have "for_each [n] body = body n" by (rule ext)
  then show ?thesis by (simp add: for_each_append)
qed

lemma for_each_invariant:
  assumes "for_each [0..<n] body s = Inr s'"
    and "P 0 s"
    and "\<And>i t t'. i < n \<Longrightarrow> P i t \<Longrightarrow> body i t = Inr t' \<Longrightarrow> P (Suc i) t'"
  shows "P n s'"
  using assms
proof (induction n arbitrary: s')
  case 0
  then show ?case by simp
next
  case (Suc n)
  from Suc.prems(1) obtain t where t: "for_each [0..<n] body s = Inr t" and s': "body n t = Inr s'"
    unfolding for_each_upt_Suc bind_fault_eq_Inr by blast
  have "P n t"
    by (rule Suc.IH [OF t Suc.prems(2)]) (rule Suc.prems(3), simp_all)
  then show ?case using s' Suc.prems(3) by blast
qed

lemma for_each_total:
  assumes "P 0 s"
    and "\<And>i t. i < n \<Longrightarrow> P i t \<Longrightarrow> \<exists>t'. body i t = Inr t' \<and> P (Suc i) t'"
  shows "\<exists>s'. for_each [0..<n] body s = Inr s' \<and> P n s'"
  using assms
proof (induction n)
  case 0
  then show ?case by simp
next
  case (Suc n)
  have "\<exists>t. for_each [0..<n] body s = Inr t \<and> P n t"
    by (rule Suc.IH [OF Suc.prems(1)]) (rule Suc.prems(2), simp_all)
  then obtain t where t: "for_each [0..<n] body s = Inr t" and Pt: "P n t" by blast
  from Suc.prems(2) [OF _ Pt] obtain t' where "body n t = Inr t'" "P (Suc n) t'" by blast
  then show ?case using t by (simp only: for_each_upt_Suc bind_fault_Inr) blast
qed

section \<open>Facts about data association\<close>

lemma dist_xy_same_y: "dist_xy x1 y x2 y = \<bar>x2 - x1\<bar>"
  by (simp add: dist_xy_def)

lemma closest_loop_keep:
  "\<forall>p \<in> set ps. d \<le> obs_dist ob p \<Longrightarrow> closest_loop ob ps j d c = c"
  by (induction ps arbitrary: j) (auto simp: Let_def)

lemma closest_loop_nearest:
  assumes "\<exists>p \<in> set ps. obs_dist ob p < d"
  shows "\<exists>k < length ps. closest_loop ob ps j d c = j + k \<and> obs_dist ob (ps ! k) < d
           \<and> (\<forall>m < length ps. obs_dist ob (ps ! k) \<le> obs_dist ob (ps ! m))
           \<and> (\<forall>m < k. obs_dist ob (ps ! k) < obs_dist ob (ps ! m))"
  using assms
proof (induction ps arbitrary: j d c)
  case Nil
  then show ?case by simp
next
  case (Cons p ps)
  let ?e = "obs_dist ob p"
  show ?case
  proof (cases "?e < d")
    case True
    show ?thesis
    proof (cases "\<exists>q \<in> set ps. obs_dist ob q < ?e")
      case ex: True
      from Cons.IH [OF ex, of "Suc j" j] obtain k where k: "k < length ps"
        "closest_loop ob ps (Suc j) ?e j = Suc j + k" "obs_dist ob (ps ! k) < ?e"
        "\<forall>m < length ps. obs_dist ob (ps ! k) \<le> obs_dist ob (ps ! m)"
        "\<forall>m < k. obs_dist ob (ps ! k) < obs_dist ob (ps ! m)" by blast
      show ?thesis
        apply (rule exI [of _ "Suc k"])
        using k True by (auto simp: Let_def nth_Cons less_Suc_eq_0_disj split: nat.splits)
    next
      case False
      then have all: "\<forall>m < length ps. ?e \<le> obs_dist ob (ps ! m)"
        by (auto simp: not_less)
      from False have "closest_loop ob ps (Suc j) ?e j = j"
        by (intro closest_loop_keep) auto
      then show ?thesis
        apply (intro exI [of _ 0])
        using True all by (auto simp: Let_def nth_Cons split: nat.splits)
    qed
  next
    case False
    with Cons.prems have ex: "\<exists>q \<in> set ps. obs_dist ob q < d" by auto
    from Cons.IH [OF ex, of "Suc j" c] obtain k where k: "k < length ps"
        "closest_loop ob ps (Suc j) d c = Suc j + k" "obs_dist ob (ps ! k) < d"
        "\<forall>m < length ps. obs_dist ob (ps ! k) \<le> obs_dist ob (ps ! m)"
        "\<forall>m < k. obs_dist ob (ps ! k) < obs_dist ob (ps ! m)" by blast
    show ?thesis
      apply (rule exI [of _ "Suc k"])
      using k False by (auto simp: Let_def nth_Cons less_Suc_eq_0_disj split: nat.splits)
  qed
qed

text \<open>
  Whenever some candidate is nearer than the initial \<^verbatim>\<open>distance_so_far\<close> of 100000, the
  observation gets the index and the coordinates of the first candidate at the least
  distance.
\<close>

lemma associate_nearest:
  assumes "\<exists>p \<in> set predicted. obs_dist ob p < 100000"
  shows "\<exists>k < length predicted.
           associate predicted ob
             = Inr (ob\<lparr>id_o := int k, x_o := x_o (predicted ! k), y_o := y_o (predicted ! k)\<rparr>)
           \<and> (\<forall>m < length predicted. obs_dist ob (predicted ! k) \<le> obs_dist ob (predicted ! m))
           \<and> (\<forall>m < k. obs_dist ob (predicted ! k) < obs_dist ob (predicted ! m))"
proof -
  from closest_loop_nearest [OF assms, of 0 0] obtain k where k: "k < length predicted"
    "closest_loop ob predicted 0 100000 0 = k"
    "\<forall>m < length predicted. obs_dist ob (predicted ! k) \<le> obs_dist ob (predicted ! m)"
    "\<forall>m < k. obs_dist ob (predicted ! k) < obs_dist ob (predicted ! m)"
    by auto
  show ?thesis
    by (rule exI [of _ k]) (simp add: k associate_def)
qed

text \<open>
  C1. \<^verbatim>\<open>dataAssociation\<close> is to give every observation the index and the coordinates of
  the nearest candidate. With the candidates at (300000, 0) and (200000, 0) and the
  observation at (0, 0), no distance is below the initial \<^verbatim>\<open>distance_so_far\<close> of 100000:
  \<^verbatim>\<open>closest\<close> stays 0, and the observation gets index 0 and the coordinates (300000, 0),
  although candidate 1 is nearer.
\<close>

theorem dataAssociation_beyond_initial_distance:
  "dataAssociation
     [\<lparr>id_o = 7, x_o = 300000, y_o = 0\<rparr>, \<lparr>id_o = 8, x_o = 200000, y_o = 0\<rparr>]
     [\<lparr>id_o = 5, x_o = 0, y_o = 0\<rparr>]
   = Inr [\<lparr>id_o = 0, x_o = 300000, y_o = 0\<rparr>]
   \<and> obs_dist \<lparr>id_o = 5, x_o = 0, y_o = 0\<rparr> \<lparr>id_o = 8, x_o = 200000, y_o = 0\<rparr>
       < obs_dist \<lparr>id_o = 5, x_o = 0, y_o = 0\<rparr> \<lparr>id_o = 7, x_o = 300000, y_o = 0\<rparr>"
  by (simp add: dataAssociation_def associate_def dist_xy_same_y)

text \<open>
  C6. With no candidate at all the inner loop does not run and \<^verbatim>\<open>closest\<close> keeps its initial
  value 0, which is not the index of a candidate; the first observation is then given the
  coordinates of \<^verbatim>\<open>predicted[0]\<close>, a read outside the empty vector. Nothing is reported.
\<close>

theorem dataAssociation_no_candidate:
  "closest_loop ob [] 0 100000 0 = 0
   \<and> dataAssociation [] (ob # observations) = Inl OutOfRangeAccess"
  by (simp add: dataAssociation_def associate_def)

section \<open>Loops that rewrite one particle at a time\<close>

lemma pointwise_loop:
  fixes body :: "nat \<Rightarrow> ParticleFilter \<Rightarrow> fault + ParticleFilter"
    and f :: "nat \<Rightarrow> Particle \<Rightarrow> fault + Particle"
  assumes body: "\<And>i t t'. body i t = Inr t' \<longleftrightarrow>
      i < length (particles t) \<and> i < length (weights t) \<and>
      (\<exists>p'. f i (particles t ! i) = Inr p' \<and>
         t' = t\<lparr>particles := (particles t)[i := p'], weights := (weights t)[i := weight_p p']\<rparr>)"
    and run: "for_each [0..<n] body s = Inr s'"
  shows "num_particles s' = num_particles s \<and> is_initialized s' = is_initialized s
     \<and> length (particles s') = length (particles s) \<and> length (weights s') = length (weights s)
     \<and> n \<le> length (particles s) \<and> n \<le> length (weights s)
     \<and> (\<forall>i < n. f i (particles s ! i) = Inr (particles s' ! i)
                 \<and> weights s' ! i = weight_p (particles s' ! i))
     \<and> (\<forall>i. n \<le> i \<longrightarrow> i < length (particles s) \<longrightarrow> particles s' ! i = particles s ! i)
     \<and> (\<forall>i. n \<le> i \<longrightarrow> i < length (weights s) \<longrightarrow> weights s' ! i = weights s ! i)"
    (is "?P n s'")
proof (rule for_each_invariant [OF run, where P = ?P])
  show "?P 0 s" by simp
next
  fix i and t t' :: ParticleFilter
  assume i: "i < n" and P: "?P i t" and step: "body i t = Inr t'"
  from step obtain p' where lt: "i < length (particles t)" "i < length (weights t)"
    and p': "f i (particles t ! i) = Inr p'"
    and t': "t' = t\<lparr>particles := (particles t)[i := p'], weights := (weights t)[i := weight_p p']\<rparr>"
    unfolding body by blast
  from P lt have same: "particles t ! i = particles s ! i" by simp
  show "?P (Suc i) t'"
    using P lt p' same by (auto simp: t' nth_list_update less_Suc_eq)
qed

lemma pointwise_loop_total:
  fixes body :: "nat \<Rightarrow> ParticleFilter \<Rightarrow> fault + ParticleFilter"
    and f :: "nat \<Rightarrow> Particle \<Rightarrow> fault + Particle"
  assumes body: "\<And>i t t'. body i t = Inr t' \<longleftrightarrow>
      i < length (particles t) \<and> i < length (weights t) \<and>
      (\<exists>p'. f i (particles t ! i) = Inr p' \<and>
         t' = t\<lparr>particles := (particles t)[i := p'], weights := (weights t)[i := weight_p p']\<rparr>)"
    and len: "n \<le> length (particles s)" "n \<le> length (weights s)"
    and ok: "\<And>i. i < n \<Longrightarrow> \<exists>p'. f i (particles s ! i) = Inr p'"
  shows "\<exists>s'. for_each [0..<n] body s = Inr s'"
proof -
  let ?P = "\<lambda>k (t :: ParticleFilter). length (particles t) = length (particles s)
     \<and> length (weights t) = length (weights s)
     \<and> (\<forall>i. k \<le> i \<longrightarrow> i < length (particles s) \<longrightarrow> particles t ! i = particles s ! i)"
  have "\<exists>s'. for_each [0..<n] body s = Inr s' \<and> ?P n s'"
  proof (rule for_each_total [where P = ?P])
    show "?P 0 s" by simp
  next
    fix i and t :: ParticleFilter
    assume i: "i < n" and P: "?P i t"
    from ok [OF i] obtain p' where p': "f i (particles s ! i) = Inr p'" by blast
    let ?t' = "t\<lparr>particles := (particles t)[i := p'], weights := (weights t)[i := weight_p p']\<rparr>"
    from P i len have same: "particles t ! i = particles s ! i" by simp
    have "body i t = Inr ?t'"
      unfolding body using P i len p' same by auto
    moreover have "?P (Suc i) ?t'"
      using P by (auto simp: nth_list_update)
    ultimately show "\<exists>t'. body i t = Inr t' \<and> ?P (Suc i) t'" by blast
  qed
  then show ?thesis by blast
qed

section \<open>Facts about prediction\<close>

lemma fdiv_nonzero: "b \<noteq> 0 \<Longrightarrow> fdiv a b = Inr (a / b)"
  by (simp add: fdiv_def)

lemma motion_eq:
  "motion delta_t velocity yaw_rate p =
     Inr (if yaw_rate \<noteq> 0
          then (x_p p + velocity / yaw_rate * (sin (theta_p p + yaw_rate * delta_t) - sin (theta_p p)),
                y_p p + velocity / yaw_rate * (cos (theta_p p) - cos (theta_p p + yaw_rate * delta_t)),
                theta_p p + yaw_rate * delta_t)
          else (x_p p + velocity * delta_t * cos (theta_p p),
                y_p p + velocity * delta_t * sin (theta_p p),
                theta_p p))"
  by (simp add: motion_def fdiv_def Let_def)

lemma prediction_body_pointwise:
  "prediction_body delta_t std_pos velocity yaw_rate gen i t = Inr t' \<longleftrightarrow>
      i < length (particles t) \<and> i < length (weights t) \<and>
      (\<exists>p'. predicted_particle delta_t std_pos velocity yaw_rate gen i (particles t ! i) = Inr p' \<and>
         t' = t\<lparr>particles := (particles t)[i := p'], weights := (weights t)[i := weight_p p']\<rparr>)"
  by (auto simp: prediction_body_def predicted_particle_def motion_eq Let_def)

lemma for_each_Inl:
  "for_each js body s = Inl e \<Longrightarrow> \<exists>i \<in> set js. \<exists>t. body i t = Inl e"
proof (induction js arbitrary: s)
  case Nil
  then show ?case by simp
next
  case (Cons i js)
  show ?case
  proof (cases "body i s")
    case (Inl e')
    with Cons.prems show ?thesis by auto
  next
    case (Inr t)
    with Cons.prems have "for_each js body t = Inl e" by simp
    from Cons.IH [OF this] show ?thesis by auto
  qed
qed

lemma predicted_particle_eq:
  "predicted_particle delta_t (std_x, std_y, std_yaw) velocity yaw_rate gen i p =
     Inr (p\<lparr>x_p := (if yaw_rate \<noteq> 0
                    then x_p p + velocity / yaw_rate
                           * (sin (theta_p p + yaw_rate * delta_t) - sin (theta_p p))
                    else x_p p + velocity * delta_t * cos (theta_p p)) + gen (3 * i) * std_x,
            y_p := (if yaw_rate \<noteq> 0
                    then y_p p + velocity / yaw_rate
                           * (cos (theta_p p) - cos (theta_p p + yaw_rate * delta_t))
                    else y_p p + velocity * delta_t * sin (theta_p p)) + gen (3 * i + 1) * std_y,
            theta_p := (if yaw_rate \<noteq> 0 then theta_p p + yaw_rate * delta_t else theta_p p)
                    + gen (3 * i + 2) * std_yaw,
            weight_p := 1\<rparr>)"
  by (simp add: predicted_particle_def motion_eq normal_distribution_def)

lemma prediction_total:
  assumes "num_particles s \<le> length (particles s)" "num_particles s \<le> length (weights s)"
  shows "\<exists>s'. prediction delta_t std_pos velocity yaw_rate gen s = Inr s'"
  unfolding prediction_def
proof (rule pointwise_loop_total [OF prediction_body_pointwise assms])
  fix i
  show "\<exists>p'. predicted_particle delta_t std_pos velocity yaw_rate gen i (particles s ! i) = Inr p'"
    by (cases std_pos) (simp add: predicted_particle_eq)
qed

text \<open>
  C2. Under the parallel vectors holding at least \<^verbatim>\<open>num_particles\<close> elements,
  \<^verbatim>\<open>prediction\<close> returns, and the new pose of every particle \<open>i\<close> is the closed form of
  the motion model (the turning one if \<open>\<bar>omega\<bar> > 0\<close>, the straight one otherwise) plus
  the noise drawn for it, the variate times the standard deviation. With standard
  deviations of zero the new pose is the closed form itself.
\<close>

theorem prediction_closed_form:
  assumes "num_particles s \<le> length (particles s)" "num_particles s \<le> length (weights s)"
  shows "\<exists>s'. prediction delta_t (std_x, std_y, std_yaw) v omega gen s = Inr s' \<and>
    (\<forall>i < num_particles s.
       let x = x_p (particles s ! i); y = y_p (particles s ! i); theta = theta_p (particles s ! i);
           x' = (if \<bar>omega\<bar> > 0
                 then x + (v / omega) * (sin (theta + omega * delta_t) - sin theta)
                 else x + v * delta_t * cos theta);
           y' = (if \<bar>omega\<bar> > 0
                 then y + (v / omega) * (cos theta - cos (theta + omega * delta_t))
                 else y + v * delta_t * sin theta);
           theta' = (if \<bar>omega\<bar> > 0 then theta + omega * delta_t else theta)
       in x_p (particles s' ! i) = x' + gen (3 * i) * std_x
        \<and> y_p (particles s' ! i) = y' + gen (3 * i + 1) * std_y
        \<and> theta_p (particles s' ! i) = theta' + gen (3 * i + 2) * std_yaw
        \<and> (std_x = 0 \<and> std_y = 0 \<and> std_yaw = 0 \<longrightarrow>
             x_p (particles s' ! i) = x' \<and> y_p (particles s' ! i) = y'
             \<and> theta_p (particles s' ! i) = theta'))"
proof -
  from prediction_total [OF assms] obtain s'
    where run: "prediction delta_t (std_x, std_y, std_yaw) v omega gen s = Inr s'" by blast
  have each: "\<forall>i < num_particles s.
      predicted_particle delta_t (std_x, std_y, std_yaw) v omega gen i (particles s ! i)
        = Inr (particles s' ! i)"
    using pointwise_loop [OF prediction_body_pointwise run [unfolded prediction_def]] by blast
  show ?thesis
  proof (intro exI conjI allI impI)
    show "prediction delta_t (std_x, std_y, std_yaw) v omega gen s = Inr s'" by (rule run)
  next
    fix i assume "i < num_particles s"
    with each have "predicted_particle delta_t (std_x, std_y, std_yaw) v omega gen i (particles s ! i)
        = Inr (particles s' ! i)" by blast
    then have "particles s' ! i = projr (predicted_particle delta_t (std_x, std_y, std_yaw) v omega gen i (particles s ! i))"
      by simp
    then show "let x = x_p (particles s ! i); y = y_p (particles s ! i); theta = theta_p (particles s ! i);
           x' = (if \<bar>omega\<bar> > 0
                 then x + (v / omega) * (sin (theta + omega * delta_t) - sin theta)
                 else x + v * delta_t * cos theta);
           y' = (if \<bar>omega\<bar> > 0
                 then y + (v / omega) * (cos theta - cos (theta + omega * delta_t))
                 else y + v * delta_t * sin theta);
           theta' = (if \<bar>omega\<bar> > 0 then theta + omega * delta_t else theta)
       in x_p (particles s' ! i) = x' + gen (3 * i) * std_x
        \<and> y_p (particles s' ! i) = y' + gen (3 * i + 1) * std_y
        \<and> theta_p (particles s' ! i) = theta' + gen (3 * i + 2) * std_yaw
        \<and> (std_x = 0 \<and> std_y = 0 \<and> std_yaw = 0 \<longrightarrow>
             x_p (particles s' ! i) = x' \<and> y_p (particles s' ! i) = y'
             \<and> theta_p (particles s' ! i) = theta')"
      by (simp add: predicted_particle_eq Let_def)
  qed
qed

lemma prediction_body_no_division_by_zero:
  "prediction_body delta_t std_pos velocity yaw_rate gen i t \<noteq> Inl DivisionByZero"
  by (simp add: prediction_body_def motion_eq Let_def)

text \<open>
  C10. With a yaw rate of zero the guard \<^verbatim>\<open>fabs(yaw_rate) > 0.0\<close> takes the straight-line
  branch. The quotient \<^verbatim>\<open>velocity/yaw_rate\<close> is never taken with a divisor of zero, at any
  yaw rate, and \<^verbatim>\<open>prediction\<close> returns whenever the vectors hold \<^verbatim>\<open>num_particles\<close>
  elements.
\<close>

theorem prediction_zero_yaw_rate:
  "motion delta_t velocity 0 p
     = Inr (x_p p + velocity * delta_t * cos (theta_p p),
            y_p p + velocity * delta_t * sin (theta_p p),
            theta_p p)
   \<and> motion delta_t velocity yaw_rate p \<noteq> Inl DivisionByZero
   \<and> prediction delta_t std_pos velocity 0 gen s \<noteq> Inl DivisionByZero
   \<and> (num_particles s \<le> length (particles s) \<and> num_particles s \<le> length (weights s) \<longrightarrow>
        (\<exists>s'. prediction delta_t std_pos velocity 0 gen s = Inr s'))"
proof (intro conjI impI)
  show "motion delta_t velocity 0 p
     = Inr (x_p p + velocity * delta_t * cos (theta_p p),
            y_p p + velocity * delta_t * sin (theta_p p),
            theta_p p)"
    by (simp add: motion_def Let_def)
  show "motion delta_t velocity yaw_rate p \<noteq> Inl DivisionByZero"
    by (simp add: motion_eq)
  show "prediction delta_t std_pos velocity 0 gen s \<noteq> Inl DivisionByZero"
    unfolding prediction_def
    using for_each_Inl [of _ "prediction_body delta_t std_pos velocity 0 gen" s DivisionByZero]
      prediction_body_no_division_by_zero by blast
  show "\<exists>s'. prediction delta_t std_pos velocity 0 gen s = Inr s'"
    if "num_particles s \<le> length (particles s) \<and> num_particles s \<le> length (weights s)"
    using that prediction_total by blast
qed

theorem prediction_closed_form_witness:
  "\<exists>s'. prediction 1 (0, 0, 0) 2 0 (\<lambda>k. 1) one_particle = Inr s'
      \<and> x_p (particles s' ! 0) = 2 \<and> y_p (particles s' ! 0) = 0 \<and> theta_p (particles s' ! 0) = 0"
  using prediction_closed_form [of one_particle 1 0 0 0 2 0 "\<lambda>k. 1"]
  by (auto simp: one_particle_def)

theorem prediction_zero_yaw_rate_witness:
  "num_particles one_particle \<le> length (particles one_particle)
   \<and> num_particles one_particle \<le> length (weights one_particle)
   \<and> (\<exists>s'. prediction 1 (0, 0, 0) 2 0 (\<lambda>k. 1) one_particle = Inr s')"
  using prediction_zero_yaw_rate [of 1 2 "particles one_particle ! 0" 0 "(0, 0, 0)" "\<lambda>k. 1" one_particle]
  by (simp add: one_particle_def)

section \<open>Facts about the weight update\<close>

lemma weight_loop_product:
  assumes "length mus = length obs" "sigmax \<noteq> 0" "sigmay \<noteq> 0"
  shows "weight_loop (Inr c) sigmax sigmay obs mus acc =
    Inr (acc * (\<Prod>i < length obs.
           c * exp (- ((x_o (obs ! i) - x_o (mus ! i)) * (x_o (obs ! i) - x_o (mus ! i))
                         / (2 * sigmax * sigmax)
                       + (y_o (obs ! i) - y_o (mus ! i)) * (y_o (obs ! i) - y_o (mus ! i))
                         / (2 * sigmay * sigmay)))))"
  using assms(1)
proof (induction mus obs arbitrary: acc rule: list_induct2)
  case Nil
  show ?case by simp
next
  case (Cons mu mus ob obs)
  let ?g = "\<lambda>ob mu. c * exp (- ((x_o ob - x_o mu) * (x_o ob - x_o mu) / (2 * sigmax * sigmax)
                       + (y_o ob - y_o mu) * (y_o ob - y_o mu) / (2 * sigmay * sigmay)))"
  have "weight_loop (Inr c) sigmax sigmay (ob # obs) (mu # mus) acc
      = weight_loop (Inr c) sigmax sigmay obs mus (acc * ?g ob mu)"
    by (simp add: fdiv_def assms(2,3) Let_def)
  also have "\<dots> = Inr (acc * ?g ob mu * (\<Prod>i < length obs. ?g (obs ! i) (mus ! i)))"
    by (rule Cons.IH)
  also have "acc * ?g ob mu * (\<Prod>i < length obs. ?g (obs ! i) (mus ! i))
      = acc * (\<Prod>i < length (ob # obs). ?g ((ob # obs) ! i) ((mu # mus) ! i))"
    by (simp only: list.size add_Suc_right add_0_right prod.lessThan_Suc_shift
          nth_Cons_0 nth_Cons_Suc o_def mult.assoc)
  finally show ?case .
qed

lemma weight_loop_division_by_zero:
  assumes "sigmax = 0 \<or> sigmay = 0"
  shows "weight_loop (fdiv 1 (2 * pi * sigmax * sigmay)) sigmax sigmay (ob # obs) (mu # mus) acc
           = Inl DivisionByZero"
  using assms by (auto simp: fdiv_def Let_def)

text \<open>
  C3. For observations and as many matched landmark means, the weight that
  \<^verbatim>\<open>UpdateParticleWeight\<close> stores in the particle is the product over the observations of
  the bivariate Gaussian density. For no observation it is 1, whatever the standard
  deviations. With an observation and a standard deviation of zero the divisors
  \<^verbatim>\<open>2*pi*sigmax*sigmay\<close> and \<^verbatim>\<open>2*sigmax*sigmax\<close> or \<^verbatim>\<open>2*sigmay*sigmay\<close> are zero, where the
  density has no value.
\<close>

theorem UpdateParticleWeight_product:
  assumes "length transformed_observations = length observations"
  shows "UpdateParticleWeight curr_p particle_index (sigma_x, sigma_y) observations
           transformed_observations =
    (if observations = [] then Inr (curr_p\<lparr>weight_p := 1\<rparr>)
     else if sigma_x = 0 \<or> sigma_y = 0 then Inl DivisionByZero
     else Inr (curr_p\<lparr>weight_p := (\<Prod>i < length observations.
       (1 / (2 * pi * sigma_x * sigma_y))
       * exp (- ((x_o (observations ! i) - x_o (transformed_observations ! i))\<^sup>2) / (2 * sigma_x\<^sup>2)
              - ((y_o (observations ! i) - y_o (transformed_observations ! i))\<^sup>2) / (2 * sigma_y\<^sup>2)))\<rparr>))"
proof (cases "observations = []")
  case True
  then show ?thesis by (simp add: UpdateParticleWeight_def)
next
  case ne: False
  show ?thesis
  proof (cases "sigma_x = 0 \<or> sigma_y = 0")
    case True
    from ne assms obtain ob obs mu mus
      where "observations = ob # obs" "transformed_observations = mu # mus"
      by (cases observations; cases transformed_observations) auto
    with True show ?thesis
      by (simp add: UpdateParticleWeight_def weight_loop_division_by_zero del: weight_loop.simps)
  next
    case False
    then have nz: "sigma_x \<noteq> 0" "sigma_y \<noteq> 0" by auto
    show ?thesis
      using ne nz
      by (simp add: UpdateParticleWeight_def fdiv_def weight_loop_product [OF assms nz]
            power2_eq_square mult.assoc)
  qed
qed

theorem UpdateParticleWeight_product_witness:
  "UpdateParticleWeight \<lparr>id_p = 0, x_p = 0, y_p = 0, theta_p = 0, weight_p = 1\<rparr> 0 (3 / 10, 3 / 10)
     [\<lparr>id_o = 0, x_o = 1, y_o = 2\<rparr>] [\<lparr>id_o = 4, x_o = 1, y_o = 2\<rparr>]
   = Inr \<lparr>id_p = 0, x_p = 0, y_p = 0, theta_p = 0, weight_p = 1 / (2 * pi * (9 / 100))\<rparr>"
  using UpdateParticleWeight_product [of "[\<lparr>id_o = 4, x_o = 1, y_o = 2\<rparr>]" "[\<lparr>id_o = 0, x_o = 1, y_o = 2\<rparr>]"
      "\<lparr>id_p = 0, x_p = 0, y_p = 0, theta_p = 0, weight_p = 1\<rparr>" 0 "3 / 10" "3 / 10"]
  by simp

section \<open>Facts about resampling\<close>

lemma resample_loop:
  assumes run: "for_each [0..<n] (resample_body dist_N s) tmp0 = Inr tmp"
    and len: "length (fst tmp0) = m" "length (snd tmp0) = m"
  shows "length (fst tmp) = m \<and> length (snd tmp) = m
     \<and> (\<forall>i < n. dist_N i < length (particles s)
           \<and> fst tmp ! i = particles s ! dist_N i
           \<and> snd tmp ! i = weight_p (particles s ! dist_N i))"
    (is "?P n tmp")
proof (rule for_each_invariant [OF run, where P = ?P])
  show "?P 0 tmp0" using len by simp
next
  fix i t t'
  assume "i < n" and P: "?P i t" and step: "resample_body dist_N s i t = Inr t'"
  from step show "?P (Suc i) t'"
    using P by (auto simp: resample_body_def Let_def nth_list_update less_Suc_eq split: if_splits)
qed

lemma resample_loop_total:
  assumes len: "length (fst tmp0) = n" "length (snd tmp0) = n"
    and ok: "\<forall>i < n. dist_N i < length (particles s)"
  shows "\<exists>tmp. for_each [0..<n] (resample_body dist_N s) tmp0 = Inr tmp"
proof -
  let ?P = "\<lambda>k (t :: Particle list \<times> real list). length (fst t) = n \<and> length (snd t) = n"
  have "\<exists>tmp. for_each [0..<n] (resample_body dist_N s) tmp0 = Inr tmp \<and> ?P n tmp"
    by (rule for_each_total [where P = ?P]) (use len ok in \<open>auto simp: resample_body_def Let_def\<close>)
  then show ?thesis by blast
qed

lemma resample_eq:
  "resample dist_N s = Inr s' \<longleftrightarrow>
     (\<forall>i < num_particles s. dist_N i < length (particles s))
     \<and> s' = s\<lparr>weights := map (\<lambda>i. weight_p (particles s ! dist_N i)) [0..<num_particles s],
              particles := map (\<lambda>i. particles s ! dist_N i) [0..<num_particles s]\<rparr>"
    (is "?L \<longleftrightarrow> ?ok \<and> s' = ?new")
proof -
  let ?n = "num_particles s"
  let ?tmp0 = "(resize ?n default_Particle [], resize ?n (0 :: real) [])"
  have len0: "length (fst ?tmp0) = ?n" "length (snd ?tmp0) = ?n"
    by (simp_all add: resize_def)
  have res: "resample dist_N s
      = bind_fault (for_each [0..<?n] (resample_body dist_N s) ?tmp0)
          (\<lambda>tmp. Inr (s\<lparr>weights := snd tmp, particles := fst tmp\<rparr>))"
    by (simp add: resample_def Let_def)
  have built: "?ok \<and> Inr (s\<lparr>weights := snd tmp, particles := fst tmp\<rparr>) = Inr ?new"
    if run: "for_each [0..<?n] (resample_body dist_N s) ?tmp0 = Inr tmp" for tmp
  proof -
    from resample_loop [OF run len0] have *: "length (fst tmp) = ?n" "length (snd tmp) = ?n"
      "\<forall>i < ?n. dist_N i < length (particles s) \<and> fst tmp ! i = particles s ! dist_N i
           \<and> snd tmp ! i = weight_p (particles s ! dist_N i)"
      by blast+
    have "fst tmp = map (\<lambda>i. particles s ! dist_N i) [0..<?n]"
      using * by (intro nth_equalityI) simp_all
    moreover have "snd tmp = map (\<lambda>i. weight_p (particles s ! dist_N i)) [0..<?n]"
      using * by (intro nth_equalityI) simp_all
    ultimately show ?thesis using * by simp
  qed
  show ?thesis
  proof
    assume ?L
    then obtain tmp where run: "for_each [0..<?n] (resample_body dist_N s) ?tmp0 = Inr tmp"
      and s': "s' = s\<lparr>weights := snd tmp, particles := fst tmp\<rparr>"
      unfolding res bind_fault_eq_Inr by auto
    from built [OF run] s' show "?ok \<and> s' = ?new" by simp
  next
    assume r: "?ok \<and> s' = ?new"
    with resample_loop_total [OF len0] obtain tmp
      where run: "for_each [0..<?n] (resample_body dist_N s) ?tmp0 = Inr tmp" by blast
    from built [OF run] r show ?L by (simp add: res run)
  qed
qed

lemma upt_0_2: "[0..<2] = [0, Suc 0]"
  by (simp add: upt_rec)

text \<open>
  C5, as claimed, fails: \<^verbatim>\<open>resample\<close> has no check of the weights. With two particles of
  weight zero and the draws 0 and 0 it returns a new generation, two copies of particle 0.
\<close>

theorem resample_all_zero_counterexample:
  "weights (two_particles 0 0) = [0, 0]
   \<and> resample (\<lambda>i. 0) (two_particles 0 0)
       = Inr ((two_particles 0 0)\<lparr>
           weights := [0, 0],
           particles := [\<lparr>id_p = 0, x_p = 0, y_p = 0, theta_p = 0, weight_p = 0\<rparr>,
                         \<lparr>id_p = 0, x_p = 0, y_p = 0, theta_p = 0, weight_p = 0\<rparr>]\<rparr>)"
  by (simp add: resample_eq two_particles_def upt_0_2)

text \<open>
  C5, amended. For a particle set whose weights are all zero \<^verbatim>\<open>resample\<close> reports nothing:
  whenever every drawn index is the index of a particle, it returns the new generation
  whose \<open>i\<close>-th particle is the old particle at the \<open>i\<close>-th drawn index, as for any other
  weights.
\<close>

theorem resample_all_zero_weights:
  assumes "set (weights s) \<subseteq> {0}"
    and "\<forall>i < num_particles s. dist_N i < length (particles s)"
  shows "resample dist_N s
    = Inr (s\<lparr>weights := map (\<lambda>i. weight_p (particles s ! dist_N i)) [0..<num_particles s],
             particles := map (\<lambda>i. particles s ! dist_N i) [0..<num_particles s]\<rparr>)"
  using assms(2) by (simp add: resample_eq)

theorem resample_all_zero_weights_witness:
  "set (weights (two_particles 0 0)) \<subseteq> {0}
   \<and> resample (\<lambda>i. 0) (two_particles 0 0)
       = Inr ((two_particles 0 0)\<lparr>
           weights := [0, 0],
           particles := [\<lparr>id_p = 0, x_p = 0, y_p = 0, theta_p = 0, weight_p = 0\<rparr>,
                         \<lparr>id_p = 0, x_p = 0, y_p = 0, theta_p = 0, weight_p = 0\<rparr>]\<rparr>)"
  using resample_all_zero_weights [of "two_particles 0 0" "\<lambda>i. 0"]
  by (simp add: two_particles_def upt_0_2)

text \<open>
  C7, as claimed, fails: the loop copies the drawn particle whole. With the draws 1 and 1
  the particle at position 0 of the new generation has the identifier 1.
\<close>

theorem resample_identifiers_counterexample:
  "\<exists>s'. resample (\<lambda>i. 1) (two_particles 1 1) = Inr s' \<and> id_p (particles s' ! 0) = 1"
  by (simp add: resample_eq two_particles_def upt_0_2)

text \<open>
  C7, amended. After \<^verbatim>\<open>resample\<close> the particle at position \<open>i\<close> of the new generation is the
  old particle at the \<open>i\<close>-th drawn index, with the identifier of that particle.
\<close>

theorem resample_copies_identifier:
  assumes "resample dist_N s = Inr s'" and "i < num_particles s"
  shows "particles s' ! i = particles s ! dist_N i
     \<and> id_p (particles s' ! i) = id_p (particles s ! dist_N i)
     \<and> weights s' ! i = weight_p (particles s ! dist_N i)"
  using assms by (simp add: resample_eq)

theorem resample_copies_identifier_witness:
  "resample (\<lambda>i. 1) (two_particles 1 1)
     = Inr ((two_particles 1 1)\<lparr>weights := [1, 1],
          particles := [\<lparr>id_p = 1, x_p = 1, y_p = 0, theta_p = 0, weight_p = 1\<rparr>,
                        \<lparr>id_p = 1, x_p = 1, y_p = 0, theta_p = 0, weight_p = 1\<rparr>]\<rparr>)
   \<and> id_p (particles ((two_particles 1 1)\<lparr>weights := [1, 1],
          particles := [\<lparr>id_p = 1, x_p = 1, y_p = 0, theta_p = 0, weight_p = 1\<rparr>,
                        \<lparr>id_p = 1, x_p = 1, y_p = 0, theta_p = 0, weight_p = 1\<rparr>]\<rparr>) ! 0)
       = id_p (particles (two_particles 1 1) ! 1)"
proof -
  have run: "resample (\<lambda>i. 1) (two_particles 1 1)
     = Inr ((two_particles 1 1)\<lparr>weights := [1, 1],
          particles := [\<lparr>id_p = 1, x_p = 1, y_p = 0, theta_p = 0, weight_p = 1\<rparr>,
                        \<lparr>id_p = 1, x_p = 1, y_p = 0, theta_p = 0, weight_p = 1\<rparr>]\<rparr>)"
    by (simp add: resample_eq two_particles_def upt_0_2)
  have "0 < num_particles (two_particles 1 1)" by (simp add: two_particles_def)
  from resample_copies_identifier [OF run this] run show ?thesis by simp
qed

section \<open>Facts about the weight update of the whole set\<close>

lemma parallel_arrays_map:
  "parallel_arrays s \<longleftrightarrow>
     length (particles s) = num_particles s \<and> weights s = map weight_p (particles s)"
  by (auto simp: parallel_arrays_def list_eq_iff_nth_eq)

lemma updateWeights_body_pointwise:
  "updateWeights_body sensor_range std_landmark observations map_landmarks i t = Inr t' \<longleftrightarrow>
      i < length (particles t) \<and> i < length (weights t) \<and>
      (\<exists>p'. weighted_particle sensor_range std_landmark observations map_landmarks i
               (particles t ! i) = Inr p' \<and>
         t' = t\<lparr>particles := (particles t)[i := p'], weights := (weights t)[i := weight_p p']\<rparr>)"
  by (auto simp: updateWeights_body_def weighted_particle_def Let_def bind_fault_eq_Inr)

lemma init_body_pointwise:
  "init_body x y theta std gen i t = Inr t' \<longleftrightarrow>
      i < length (particles t) \<and> i < length (weights t) \<and>
      (\<exists>p'. initial_particle x y theta std gen i (particles t ! i) = Inr p' \<and>
         t' = t\<lparr>particles := (particles t)[i := p'], weights := (weights t)[i := weight_p p']\<rparr>)"
  by (auto simp: init_body_def initial_particle_def Let_def)

lemma GetLandmarksWithinSensorRange_weight:
  "GetLandmarksWithinSensorRange (p\<lparr>weight_p := w\<rparr>) ls sensor_range remaining
     = GetLandmarksWithinSensorRange p ls sensor_range remaining"
  by (induction ls arbitrary: remaining) (simp_all add: Let_def)

lemma ConvertToParticleCoordinates_weight:
  "ConvertToParticleCoordinates (p\<lparr>weight_p := w\<rparr>) observations
     = ConvertToParticleCoordinates p observations"
  by (simp add: ConvertToParticleCoordinates_def)

lemma UpdateParticleWeight_Inr:
  "UpdateParticleWeight p i std_landmark observations mus = Inr p' \<longleftrightarrow>
     (\<exists>w. weight_loop (fdiv 1 (2 * pi * fst std_landmark * snd std_landmark))
            (fst std_landmark) (snd std_landmark) observations mus 1 = Inr w
          \<and> p' = p\<lparr>weight_p := w\<rparr>)"
  unfolding UpdateParticleWeight_def Let_def bind_fault_eq_Inr by blast

lemma weighted_particle_Inr:
  "weighted_particle sensor_range std_landmark observations map_landmarks i p = Inr p' \<longleftrightarrow>
     (\<exists>chosen w.
        dataAssociation
          (GetLandmarksWithinSensorRange p (landmark_list map_landmarks) sensor_range [])
          (ConvertToParticleCoordinates p observations) = Inr chosen
        \<and> weight_loop (fdiv 1 (2 * pi * fst std_landmark * snd std_landmark))
            (fst std_landmark) (snd std_landmark)
            (ConvertToParticleCoordinates p observations) chosen 1 = Inr w
        \<and> p' = p\<lparr>weight_p := w\<rparr>)"
  unfolding weighted_particle_def Let_def bind_fault_eq_Inr UpdateParticleWeight_Inr by blast

lemma weighted_particle_frame:
  assumes "weighted_particle sensor_range std_landmark observations map_landmarks i p = Inr p'"
  shows "p' = p\<lparr>weight_p := weight_p p'\<rparr>"
proof -
  from assms obtain w where "p' = p\<lparr>weight_p := w\<rparr>"
    unfolding weighted_particle_Inr by blast
  then show ?thesis by simp
qed

lemma weighted_particle_again:
  assumes "weighted_particle sensor_range std_landmark observations map_landmarks i p = Inr p'"
  shows "weighted_particle sensor_range std_landmark observations map_landmarks i p' = Inr p'"
proof -
  from assms obtain chosen w where
    a: "dataAssociation
          (GetLandmarksWithinSensorRange p (landmark_list map_landmarks) sensor_range [])
          (ConvertToParticleCoordinates p observations) = Inr chosen"
    and l: "weight_loop (fdiv 1 (2 * pi * fst std_landmark * snd std_landmark))
            (fst std_landmark) (snd std_landmark)
            (ConvertToParticleCoordinates p observations) chosen 1 = Inr w"
    and p': "p' = p\<lparr>weight_p := w\<rparr>"
    unfolding weighted_particle_Inr by blast
  have "p\<lparr>weight_p := w\<rparr> = p\<lparr>weight_p := w, weight_p := w\<rparr>" by simp
  with a l show ?thesis
    unfolding p' weighted_particle_Inr GetLandmarksWithinSensorRange_weight
      ConvertToParticleCoordinates_weight
    by blast
qed

lemma pointwise_loop_invariant:
  fixes body :: "nat \<Rightarrow> ParticleFilter \<Rightarrow> fault + ParticleFilter"
    and f :: "nat \<Rightarrow> Particle \<Rightarrow> fault + Particle"
  assumes body: "\<And>i t t'. body i t = Inr t' \<longleftrightarrow>
      i < length (particles t) \<and> i < length (weights t) \<and>
      (\<exists>p'. f i (particles t ! i) = Inr p' \<and>
         t' = t\<lparr>particles := (particles t)[i := p'], weights := (weights t)[i := weight_p p']\<rparr>)"
    and run: "for_each [0..<num_particles s] body s = Inr s'"
    and len: "length (particles s) = num_particles s" "length (weights s) = num_particles s"
  shows "parallel_arrays s' \<and> num_particles s' = num_particles s"
  using pointwise_loop [of body f, OF body run] len
  by (simp add: parallel_arrays_def)

text \<open>
  C8. If \<^verbatim>\<open>updateWeights\<close> returns, a second call with the same arguments returns too and
  leaves the filter as the first call left it: the weight vector after the second call is
  the weight vector after the first.
\<close>

theorem updateWeights_idempotent:
  assumes first: "updateWeights sensor_range std_landmark observations map_landmarks s = Inr s1"
  shows "updateWeights sensor_range std_landmark observations map_landmarks s1 = Inr s1
     \<and> (\<forall>s2. updateWeights sensor_range std_landmark observations map_landmarks s1 = Inr s2
            \<longrightarrow> weights s2 = weights s1)"
proof -
  let ?body = "updateWeights_body sensor_range std_landmark observations map_landmarks"
  let ?f = "weighted_particle sensor_range std_landmark observations map_landmarks"
  note facts = pointwise_loop [of ?body ?f, OF updateWeights_body_pointwise
      first [unfolded updateWeights_def]]
  from facts have n: "num_particles s1 = num_particles s" by blast
  have "\<exists>s2. for_each [0..<num_particles s] ?body s1 = Inr s2 \<and> s2 = s1"
  proof (rule for_each_total [where P = "\<lambda>k t. t = s1"])
    show "s1 = s1" by simp
  next
    fix i and t :: ParticleFilter
    assume i: "i < num_particles s" and t: "t = s1"
    from facts i have lt: "i < length (particles s1)" "i < length (weights s1)"
      and w: "weights s1 ! i = weight_p (particles s1 ! i)"
      and p: "?f i (particles s ! i) = Inr (particles s1 ! i)"
      by simp_all
    have "?f i (particles s1 ! i) = Inr (particles s1 ! i)"
      by (rule weighted_particle_again [OF p])
    moreover have "(weights s1)[i := weight_p (particles s1 ! i)] = weights s1"
      by (simp add: w [symmetric])
    ultimately have "?body i s1 = Inr s1"
      unfolding updateWeights_body_pointwise using lt by simp
    then show "\<exists>t'. ?body i t = Inr t' \<and> t' = s1" by (simp add: t)
  qed
  then have "updateWeights sensor_range std_landmark observations map_landmarks s1 = Inr s1"
    by (simp add: updateWeights_def n)
  then show ?thesis by simp
qed


text \<open>
  C9. \<^verbatim>\<open>updateWeights\<close> leaves the fields \<^verbatim>\<open>x\<close>, \<^verbatim>\<open>y\<close>, \<^verbatim>\<open>theta\<close> and \<^verbatim>\<open>id\<close> of every particle
  as they were: each new particle is the old one with another weight. The number of
  particles, the lengths of the two vectors and the flag \<^verbatim>\<open>is_initialized\<close> stay too; only
  the weights change.
\<close>

theorem updateWeights_frame:
  assumes "updateWeights sensor_range std_landmark observations map_landmarks s = Inr s'"
  shows "length (particles s') = length (particles s)
     \<and> (\<forall>i < length (particles s).
           x_p (particles s' ! i) = x_p (particles s ! i)
         \<and> y_p (particles s' ! i) = y_p (particles s ! i)
         \<and> theta_p (particles s' ! i) = theta_p (particles s ! i)
         \<and> id_p (particles s' ! i) = id_p (particles s ! i)
         \<and> particles s' ! i = (particles s ! i)\<lparr>weight_p := weight_p (particles s' ! i)\<rparr>)
     \<and> length (weights s') = length (weights s)
     \<and> num_particles s' = num_particles s \<and> is_initialized s' = is_initialized s"
proof -
  let ?body = "updateWeights_body sensor_range std_landmark observations map_landmarks"
  let ?f = "weighted_particle sensor_range std_landmark observations map_landmarks"
  note facts = pointwise_loop [of ?body ?f, OF updateWeights_body_pointwise
      assms [unfolded updateWeights_def]]
  have "\<exists>w. particles s' ! i = (particles s ! i)\<lparr>weight_p := w\<rparr>"
    if "i < length (particles s)" for i
  proof (cases "i < num_particles s")
    case True
    with facts have "?f i (particles s ! i) = Inr (particles s' ! i)" by blast
    from weighted_particle_frame [OF this] show ?thesis by blast
  next
    case False
    with facts that have "particles s' ! i = particles s ! i" by simp
    then have "particles s' ! i = (particles s ! i)\<lparr>weight_p := weight_p (particles s ! i)\<rparr>"
      by simp
    then show ?thesis by blast
  qed
  then have each: "\<forall>i < length (particles s).
           x_p (particles s' ! i) = x_p (particles s ! i)
         \<and> y_p (particles s' ! i) = y_p (particles s ! i)
         \<and> theta_p (particles s' ! i) = theta_p (particles s ! i)
         \<and> id_p (particles s' ! i) = id_p (particles s ! i)
         \<and> particles s' ! i = (particles s ! i)\<lparr>weight_p := weight_p (particles s' ! i)\<rparr>"
    by fastforce
  from facts have "length (particles s') = length (particles s)"
    "length (weights s') = length (weights s)"
    "num_particles s' = num_particles s" "is_initialized s' = is_initialized s"
    by blast+
  with each show ?thesis by blast
qed

lemma length_resize: "length (resize n d vs) = n"
  by (simp add: resize_def)

lemma updateWeights_example:
  "updateWeights 50 (1, 1) one_observation one_landmark (two_particles 1 1)
     = Inr (two_particles (1 / (2 * pi)) (exp (- (1 / 2)) / (2 * pi)))"
  by (simp add: updateWeights_def updateWeights_body_def two_particles_def one_landmark_def
        one_observation_def upt_0_2 dist_xy_same_y ConvertToParticleCoordinates_def
        dataAssociation_def associate_def UpdateParticleWeight_def fdiv_def Let_def)

theorem updateWeights_idempotent_witness:
  "updateWeights 50 (1, 1) one_observation one_landmark (two_particles 1 1)
     = Inr (two_particles (1 / (2 * pi)) (exp (- (1 / 2)) / (2 * pi)))
   \<and> updateWeights 50 (1, 1) one_observation one_landmark
         (two_particles (1 / (2 * pi)) (exp (- (1 / 2)) / (2 * pi)))
     = Inr (two_particles (1 / (2 * pi)) (exp (- (1 / 2)) / (2 * pi)))"
  using updateWeights_idempotent [OF updateWeights_example] updateWeights_example by blast

theorem updateWeights_frame_witness:
  "updateWeights 50 (1, 1) one_observation one_landmark (two_particles 1 1)
     = Inr (two_particles (1 / (2 * pi)) (exp (- (1 / 2)) / (2 * pi)))
   \<and> x_p (particles (two_particles (1 / (2 * pi)) (exp (- (1 / 2)) / (2 * pi))) ! 1)
       = x_p (particles (two_particles 1 1) ! 1)
   \<and> id_p (particles (two_particles (1 / (2 * pi)) (exp (- (1 / 2)) / (2 * pi))) ! 1)
       = id_p (particles (two_particles 1 1) ! 1)"
proof -
  have "(1 :: nat) < length (particles (two_particles 1 1))"
    by (simp add: two_particles_def)
  with updateWeights_frame [OF updateWeights_example] updateWeights_example
  show ?thesis by blast
qed

section \<open>The invariant under the four operations\<close>

lemma init_total:
  "\<exists>s'. init x y theta std gen s0 = Inr s' \<and> parallel_arrays s' \<and> num_particles s' = 75"
proof -
  let ?s1 = "s0\<lparr>num_particles := 75,
                 particles := resize 75 default_Particle (particles s0),
                 weights := resize 75 0 (weights s0)\<rparr>"
  have len: "length (particles ?s1) = num_particles ?s1" "length (weights ?s1) = num_particles ?s1"
    by (simp_all add: length_resize)
  have "\<exists>s2. for_each [0..<num_particles ?s1] (init_body x y theta std gen) ?s1 = Inr s2"
    by (rule pointwise_loop_total [OF init_body_pointwise])
      (simp_all add: length_resize initial_particle_def)
  then obtain s2
    where run: "for_each [0..<num_particles ?s1] (init_body x y theta std gen) ?s1 = Inr s2"
    by blast
  from pointwise_loop_invariant [OF init_body_pointwise run len]
  have "parallel_arrays s2" "num_particles s2 = 75" by simp_all
  then have "parallel_arrays (s2\<lparr>is_initialized := True\<rparr>)"
    "num_particles (s2\<lparr>is_initialized := True\<rparr>) = 75"
    by (simp_all add: parallel_arrays_def)
  moreover have "init x y theta std gen s0 = Inr (s2\<lparr>is_initialized := True\<rparr>)"
    using run by (simp add: init_def Let_def)
  ultimately show ?thesis by blast
qed

lemma prediction_invariant:
  assumes "parallel_arrays s"
  shows "\<exists>s'. prediction delta_t std_pos velocity yaw_rate gen s = Inr s'
           \<and> parallel_arrays s' \<and> num_particles s' = num_particles s"
proof -
  from assms have len: "length (particles s) = num_particles s"
    "length (weights s) = num_particles s"
    by (simp_all add: parallel_arrays_def)
  then obtain s' where run: "prediction delta_t std_pos velocity yaw_rate gen s = Inr s'"
    using prediction_total [of s delta_t std_pos velocity yaw_rate gen] by auto
  from pointwise_loop_invariant [OF prediction_body_pointwise run [unfolded prediction_def] len]
    run show ?thesis by blast
qed

lemma updateWeights_invariant:
  assumes "parallel_arrays s"
    and run: "updateWeights sensor_range std_landmark observations map_landmarks s = Inr s'"
  shows "parallel_arrays s' \<and> num_particles s' = num_particles s"
proof -
  from assms have len: "length (particles s) = num_particles s"
    "length (weights s) = num_particles s"
    by (simp_all add: parallel_arrays_def)
  from pointwise_loop_invariant [OF updateWeights_body_pointwise run [unfolded updateWeights_def] len]
  show ?thesis .
qed

lemma resample_invariant:
  assumes "resample dist_N s = Inr s'"
  shows "parallel_arrays s' \<and> num_particles s' = num_particles s"
  using assms by (simp add: resample_eq parallel_arrays_def)

text \<open>
  C4. \<^verbatim>\<open>init\<close> returns a filter of 75 particles in which \<^verbatim>\<open>weights[i]\<close> is
  \<^verbatim>\<open>particles[i].weight\<close> at every index. From a filter with this invariant
  \<^verbatim>\<open>prediction\<close> returns one with it, and so do \<^verbatim>\<open>updateWeights\<close> and \<^verbatim>\<open>resample\<close> whenever
  they return; none of the three changes the number of particles.
\<close>

theorem parallel_arrays_after_every_operation:
  "(\<exists>s'. init x y theta std gen s0 = Inr s' \<and> parallel_arrays s' \<and> num_particles s' = 75)
   \<and> (parallel_arrays s \<longrightarrow>
        (\<exists>s'. prediction delta_t std_pos velocity yaw_rate gen s = Inr s'
              \<and> parallel_arrays s' \<and> num_particles s' = num_particles s))
   \<and> (parallel_arrays s
        \<and> updateWeights sensor_range std_landmark observations map_landmarks s = Inr s'
      \<longrightarrow> parallel_arrays s' \<and> num_particles s' = num_particles s)
   \<and> (parallel_arrays s \<and> resample dist_N s = Inr s'
      \<longrightarrow> parallel_arrays s' \<and> num_particles s' = num_particles s)"
proof (intro conjI impI)
  show "\<exists>s'. init x y theta std gen s0 = Inr s' \<and> parallel_arrays s' \<and> num_particles s' = 75"
    by (rule init_total)
  show "\<exists>s'. prediction delta_t std_pos velocity yaw_rate gen s = Inr s'
              \<and> parallel_arrays s' \<and> num_particles s' = num_particles s"
    if "parallel_arrays s"
    using that by (rule prediction_invariant)
  show "parallel_arrays s'" "num_particles s' = num_particles s"
    if "parallel_arrays s
        \<and> updateWeights sensor_range std_landmark observations map_landmarks s = Inr s'"
    using that updateWeights_invariant by blast+
  show "parallel_arrays s'" "num_particles s' = num_particles s"
    if "parallel_arrays s \<and> resample dist_N s = Inr s'"
    using that resample_invariant by blast+
qed

lemma parallel_arrays_two_particles: "parallel_arrays (two_particles w0 w1)"
  by (simp add: parallel_arrays_map two_particles_def)

lemma resample_example:
  "resample (\<lambda>i. 1 - i) (two_particles 1 3)
     = Inr ((two_particles 1 3)\<lparr>weights := [3, 1],
          particles := [\<lparr>id_p = 1, x_p = 1, y_p = 0, theta_p = 0, weight_p = 3\<rparr>,
                        \<lparr>id_p = 0, x_p = 0, y_p = 0, theta_p = 0, weight_p = 1\<rparr>]\<rparr>)"
  by (auto simp: resample_eq two_particles_def upt_0_2)

theorem parallel_arrays_after_every_operation_witness:
  "parallel_arrays (two_particles 1 1)
   \<and> (\<exists>s'. init 0 0 0 (1, 1, 1) (\<lambda>k. 0) (two_particles 1 1) = Inr s'
          \<and> parallel_arrays s' \<and> num_particles s' = 75)
   \<and> (\<exists>s'. prediction 1 (0, 0, 0) 2 0 (\<lambda>k. 0) (two_particles 1 1) = Inr s'
          \<and> parallel_arrays s' \<and> num_particles s' = 2)
   \<and> updateWeights 50 (1, 1) one_observation one_landmark (two_particles 1 1)
       = Inr (two_particles (1 / (2 * pi)) (exp (- (1 / 2)) / (2 * pi)))
   \<and> parallel_arrays (two_particles (1 / (2 * pi)) (exp (- (1 / 2)) / (2 * pi)))
   \<and> parallel_arrays (two_particles 1 3)
   \<and> resample (\<lambda>i. 1 - i) (two_particles 1 3)
       = Inr ((two_particles 1 3)\<lparr>weights := [3, 1],
            particles := [\<lparr>id_p = 1, x_p = 1, y_p = 0, theta_p = 0, weight_p = 3\<rparr>,
                          \<lparr>id_p = 0, x_p = 0, y_p = 0, theta_p = 0, weight_p = 1\<rparr>]\<rparr>)
   \<and> parallel_arrays ((two_particles 1 3)\<lparr>weights := [3, 1],
            particles := [\<lparr>id_p = 1, x_p = 1, y_p = 0, theta_p = 0, weight_p = 3\<rparr>,
                          \<lparr>id_p = 0, x_p = 0, y_p = 0, theta_p = 0, weight_p = 1\<rparr>]\<rparr>)"
proof -
  have n: "num_particles (two_particles 1 1) = 2"
    by (simp add: two_particles_def)
  note a = parallel_arrays_after_every_operation
    [where x = 0 and y = 0 and theta = 0 and std = "(1, 1, 1)" and gen = "\<lambda>k. 0"
       and ?s0.0 = "two_particles 1 1" and s = "two_particles 1 1"
       and delta_t = 1 and std_pos = "(0, 0, 0)" and velocity = 2 and yaw_rate = 0
       and sensor_range = 50 and std_landmark = "(1, 1)" and observations = one_observation
       and map_landmarks = one_landmark
       and s' = "two_particles (1 / (2 * pi)) (exp (- (1 / 2)) / (2 * pi))"]
  note b = parallel_arrays_after_every_operation
    [where s = "two_particles 1 3" and dist_N = "\<lambda>i. 1 - i"
       and s' = "(two_particles 1 3)\<lparr>weights := [3, 1],
            particles := [\<lparr>id_p = 1, x_p = 1, y_p = 0, theta_p = 0, weight_p = 3\<rparr>,
                          \<lparr>id_p = 0, x_p = 0, y_p = 0, theta_p = 0, weight_p = 1\<rparr>]\<rparr>"]
  from a have "\<exists>s'. init 0 0 0 (1, 1, 1) (\<lambda>k. 0) (two_particles 1 1) = Inr s'
          \<and> parallel_arrays s' \<and> num_particles s' = 75"
    by blast
  moreover from a parallel_arrays_two_particles n
  have "\<exists>s'. prediction 1 (0, 0, 0) 2 0 (\<lambda>k. 0) (two_particles 1 1) = Inr s'
          \<and> parallel_arrays s' \<and> num_particles s' = 2"
    by simp
  moreover from a parallel_arrays_two_particles updateWeights_example
  have "parallel_arrays (two_particles (1 / (2 * pi)) (exp (- (1 / 2)) / (2 * pi)))"
    by blast
  moreover from b parallel_arrays_two_particles resample_example
  have "parallel_arrays ((two_particles 1 3)\<lparr>weights := [3, 1],
            particles := [\<lparr>id_p = 1, x_p = 1, y_p = 0, theta_p = 0, weight_p = 3\<rparr>,
                          \<lparr>id_p = 0, x_p = 0, y_p = 0, theta_p = 0, weight_p = 1\<rparr>]\<rparr>)"
    by blast
  ultimately show ?thesis
    using updateWeights_example resample_example parallel_arrays_two_particles by blast
qed

section \<open>Where the weight update leaves the model\<close>

text \<open>
  With a sensor range of 1 the particle at the origin has no landmark in range: the
  candidate set of \<^verbatim>\<open>dataAssociation\<close> is empty and the read of \<^verbatim>\<open>predicted[0]\<close> is out of
  range. With a standard deviation of zero the weight is a quotient by zero.
\<close>

lemma updateWeights_no_landmark_in_range:
  "updateWeights 1 (1, 1) one_observation one_landmark (two_particles 1 1)
     = Inl OutOfRangeAccess"
  by (simp add: updateWeights_def updateWeights_body_def two_particles_def one_landmark_def
        one_observation_def upt_0_2 dist_xy_same_y ConvertToParticleCoordinates_def
        dataAssociation_def associate_def Let_def)

lemma updateWeights_zero_deviation:
  "updateWeights 50 (0, 1) one_observation one_landmark (two_particles 1 1)
     = Inl DivisionByZero"
  by (simp add: updateWeights_def updateWeights_body_def two_particles_def one_landmark_def
        one_observation_def upt_0_2 dist_xy_same_y ConvertToParticleCoordinates_def
        dataAssociation_def associate_def UpdateParticleWeight_def fdiv_def Let_def)

end
